theory Spec2Isabelle
  imports Main "HOL-Library.Monad_Syntax"
begin

section \<open>The program: \<open>src/main.py\<close>\<close>

text \<open>
  The script has one recursive function over Python's unbounded integers and an entry
  point that prints two lines. Python integers are modelled as \<^typ>\<open>int\<close>. The model
  abstracts from the interpreter's resource limits (the recursion limit and the running
  time of the exponential recursion): a call is taken to run to completion whenever
  its recursion is well founded.
\<close>

subsection \<open>\<open>calculate_fibonacci\<close>\<close>

text \<open>
  \<^verbatim>\<open>
  def calculate_fibonacci(n: int) -> int:
      if n <= 1:
          return n
      return calculate_fibonacci(n-1) + calculate_fibonacci(n-2)
  \<close>
  The recursion is not structural on \<^typ>\<open>int\<close>; it terminates because the argument
  of every recursive call is smaller and the guard stops at \<open>1\<close>.
\<close>

function calculate_fibonacci :: "int \<Rightarrow> int" where
  "calculate_fibonacci n =
     (if n \<le> 1 then n
      else calculate_fibonacci (n - 1) + calculate_fibonacci (n - 2))"
  by pat_completeness auto
termination
  by (relation "measure nat") auto

declare calculate_fibonacci.simps [simp del]

text \<open>
  The same function with non-termination made observable: a call that never returns
  has the value \<open>None\<close>. The body is the source's, with the two recursive calls
  evaluated left to right.
\<close>

partial_function (option) calculate_fibonacci_opt :: "int \<Rightarrow> int option" where
  "calculate_fibonacci_opt n =
     (if n \<le> 1 then Some n
      else do {
        a \<leftarrow> calculate_fibonacci_opt (n - 1);
        b \<leftarrow> calculate_fibonacci_opt (n - 2);
        Some (a + b)
      })"

declare calculate_fibonacci_opt.simps [code]

text \<open>
  The call sites of the body: \<open>calls n m\<close> holds when the evaluation of
  \<open>calculate_fibonacci(n)\<close> calls \<open>calculate_fibonacci(m)\<close> directly. Both calls sit
  behind the guard \<open>n <= 1\<close>.
\<close>

inductive calls :: "int \<Rightarrow> int \<Rightarrow> bool" where
  call_left: "\<not> n \<le> 1 \<Longrightarrow> calls n (n - 1)"
| call_right: "\<not> n \<le> 1 \<Longrightarrow> calls n (n - 2)"

code_pred calls .

subsection \<open>Standard output and \<open>main\<close>\<close>

text \<open>
  Standard output is the text written so far. \<open>print(s)\<close> appends \<open>s\<close> and a
  newline.
\<close>

type_synonym stdout = string

definition newline :: char where
  "newline = CHR 0x0A"

definition print :: "string \<Rightarrow> stdout \<Rightarrow> stdout" where
  "print s out = out @ s @ [newline]"

text \<open>
  Python's \<open>str\<close> on an integer, which is what the replacement fields \<open>{n}\<close> and
  \<open>{result}\<close> of the f-string produce: decimal digits, most significant first, with a
  leading minus sign for a negative number.
\<close>

definition digit_char :: "nat \<Rightarrow> char" where
  "digit_char d = ''0123456789'' ! d"

function str_nat :: "nat \<Rightarrow> string" where
  "str_nat k = (if k < 10 then [digit_char k] else str_nat (k div 10) @ [digit_char (k mod 10)])"
  by pat_completeness auto
termination
  by (relation "measure id") auto

declare str_nat.simps [simp del]

definition str_int :: "int \<Rightarrow> string" where
  "str_int i = (if i < 0 then ''-'' @ str_nat (nat (- i)) else str_nat (nat i))"

text \<open>
  \<open>calculate_fibonacci\<close> as it runs inside the program, with the standard output
  threaded through every call: the body contains no \<open>print\<close> and no assignment to
  anything but its own result, so each branch hands on the output it received.
\<close>

function calculate_fibonacci_io :: "int \<Rightarrow> stdout \<Rightarrow> int \<times> stdout" where
  "calculate_fibonacci_io n out =
     (if n \<le> 1 then (n, out)
      else
        let (a, out1) = calculate_fibonacci_io (n - 1) out;
            (b, out2) = calculate_fibonacci_io (n - 2) out1
        in (a + b, out2))"
  by pat_completeness auto
termination
  by (relation "measure (\<lambda>(n, out). nat n)") auto

declare calculate_fibonacci_io.simps [simp del]

text \<open>
  \<^verbatim>\<open>
  def main():
      print("Starting application...")
      n = 10
      result = calculate_fibonacci(n)
      print(f"The {n}th Fibonacci number is: {result}")
  \<close>
\<close>

definition main :: "stdout \<Rightarrow> stdout" where
  "main out0 =
     (let out1 = print ''Starting application...'' out0;
          n = 10;
          (result, out2) = calculate_fibonacci_io n out1
      in print (''The '' @ str_int n @ ''th Fibonacci number is: '' @ str_int result) out2)"

subsection \<open>The mathematical Fibonacci sequence\<close>

text \<open>
  The sequence of the specification, on the natural numbers: \<open>F(0) = 0\<close>,
  \<open>F(1) = 1\<close>, \<open>F(n) = F(n-1) + F(n-2)\<close> for \<open>n \<ge> 2\<close>. It is written from the
  specification's convention, to be compared with the function of the source.
\<close>

fun F :: "nat \<Rightarrow> int" where
  "F 0 = 0"
| "F (Suc 0) = 1"
| "F (Suc (Suc k)) = F (Suc k) + F k"

section \<open>Basic facts\<close>

lemma cf_base: "n \<le> 1 \<Longrightarrow> calculate_fibonacci n = n"
  by (subst calculate_fibonacci.simps) simp

lemma cf_step: "1 < n \<Longrightarrow> calculate_fibonacci n = calculate_fibonacci (n - 1) + calculate_fibonacci (n - 2)"
  by (subst calculate_fibonacci.simps) simp

lemma cf_nat_Suc_Suc:
  "calculate_fibonacci (int (Suc (Suc k))) = calculate_fibonacci (int (Suc k)) + calculate_fibonacci (int k)"
  using cf_step [of "int (Suc (Suc k))"] by (simp add: algebra_simps)

lemma cf_eq_F: "calculate_fibonacci (int k) = F k"
proof (induction k rule: F.induct)
  case 1
  show ?case by (simp add: cf_base)
next
  case 2
  show ?case by (simp add: cf_base)
next
  case (3 k)
  then show ?case by (simp only: cf_nat_Suc_Suc F.simps)
qed

lemma cf_nonneg_eq_F: "0 \<le> n \<Longrightarrow> calculate_fibonacci n = F (nat n)"
  using cf_eq_F [of "nat n"] by simp

lemma cf_succ: "1 \<le> n \<Longrightarrow> calculate_fibonacci (n + 1) = calculate_fibonacci n + calculate_fibonacci (n - 1)"
  using cf_step [of "n + 1"] by simp

lemma cf_nonneg: "0 \<le> n \<Longrightarrow> 0 \<le> calculate_fibonacci n"
proof (induction n rule: calculate_fibonacci.induct)
  case (1 n)
  show ?case
  proof (cases "n \<le> 1")
    case True
    with "1.prems" show ?thesis by (simp add: cf_base)
  next
    case False
    then have "0 \<le> calculate_fibonacci (n - 1)" and "0 \<le> calculate_fibonacci (n - 2)"
      using "1.IH" by simp_all
    with False show ?thesis by (simp add: cf_step)
  qed
qed

lemma cf_pos: "1 \<le> n \<Longrightarrow> 1 \<le> calculate_fibonacci n"
proof (induction n rule: calculate_fibonacci.induct)
  case (1 n)
  show ?case
  proof (cases "n \<le> 1")
    case True
    with "1.prems" show ?thesis by (simp add: cf_base)
  next
    case False
    then have "1 \<le> calculate_fibonacci (n - 1)"
      using "1.IH"(1) by simp
    moreover have "0 \<le> calculate_fibonacci (n - 2)"
      using False by (simp add: cf_nonneg)
    ultimately show ?thesis
      using False by (simp add: cf_step)
  qed
qed

lemma cf_mono_succ: "0 \<le> n \<Longrightarrow> calculate_fibonacci n \<le> calculate_fibonacci (n + 1)"
proof (cases "n = 0")
  case True
  then show ?thesis by (simp add: cf_base)
next
  case False
  assume "0 \<le> n"
  with False have n: "1 \<le> n" by simp
  then have "0 \<le> calculate_fibonacci (n - 1)" by (simp add: cf_nonneg)
  with n show ?thesis by (simp add: cf_succ)
qed

lemma cf_strict_succ: "2 \<le> n \<Longrightarrow> calculate_fibonacci n < calculate_fibonacci (n + 1)"
proof -
  assume n: "2 \<le> n"
  then have "1 \<le> calculate_fibonacci (n - 1)" by (simp add: cf_pos)
  with n show ?thesis by (simp add: cf_succ)
qed

text \<open>Values of the function at small arguments, computed from its equation.\<close>

lemma cf_small:
  "calculate_fibonacci 2 = 1" "calculate_fibonacci 3 = 2" "calculate_fibonacci 4 = 3"
  "calculate_fibonacci 5 = 5" "calculate_fibonacci 6 = 8" "calculate_fibonacci 7 = 13"
  by code_simp+

lemma cf_10: "calculate_fibonacci 10 = 55"
  by code_simp

lemma cf_above: "6 \<le> n \<Longrightarrow> n < calculate_fibonacci n"
proof (induction n rule: calculate_fibonacci.induct)
  case (1 n)
  consider "n = 6" | "n = 7" | "8 \<le> n"
    using "1.prems" by linarith
  then show ?case
  proof cases
    case 1
    then show ?thesis by (simp add: cf_small)
  next
    case 2
    then show ?thesis by (simp add: cf_small)
  next
    case 3
    then have "n - 1 < calculate_fibonacci (n - 1)" and "n - 2 < calculate_fibonacci (n - 2)"
      using "1.IH" by simp_all
    moreover have "calculate_fibonacci n = calculate_fibonacci (n - 1) + calculate_fibonacci (n - 2)"
      using 3 by (simp add: cf_step)
    ultimately show ?thesis
      using 3 by linarith
  qed
qed

text \<open>The output-threading version returns the pure result and the output it was given.\<close>

lemma cf_io_pure: "calculate_fibonacci_io n out = (calculate_fibonacci n, out)"
proof (induction n out rule: calculate_fibonacci_io.induct)
  case (1 n out)
  show ?case
  proof (cases "n \<le> 1")
    case True
    then show ?thesis
      by (subst calculate_fibonacci_io.simps) (simp add: cf_base)
  next
    case False
    have l: "calculate_fibonacci_io (n - 1) out = (calculate_fibonacci (n - 1), out)"
      using "1.IH"(1) False by simp
    have r: "calculate_fibonacci_io (n - 2) out = (calculate_fibonacci (n - 2), out)"
      using "1.IH"(2) [OF False refl l [symmetric]] .
    show ?thesis
      using False by (subst calculate_fibonacci_io.simps) (simp add: l r cf_step)
  qed
qed

text \<open>Every call returns: the option-valued version is never \<open>None\<close>.\<close>

lemma cf_opt_total: "calculate_fibonacci_opt n = Some (calculate_fibonacci n)"
proof (induction n rule: calculate_fibonacci.induct)
  case (1 n)
  show ?case
  proof (cases "n \<le> 1")
    case True
    then show ?thesis
      by (subst calculate_fibonacci_opt.simps) (simp add: cf_base)
  next
    case False
    then have "calculate_fibonacci_opt (n - 1) = Some (calculate_fibonacci (n - 1))"
      and "calculate_fibonacci_opt (n - 2) = Some (calculate_fibonacci (n - 2))"
      using "1.IH" by simp_all
    with False show ?thesis
      by (subst calculate_fibonacci_opt.simps) (simp add: cf_step)
  qed
qed

lemma calls_iff: "calls n m \<longleftrightarrow> 1 < n \<and> (m = n - 1 \<or> m = n - 2)"
  by (auto simp: calls.simps)

lemma calls_wfp: "wfp (\<lambda>m n. calls n m)"
  by (rule wfp_if_convertible_to_nat [where f = nat]) (auto simp: calls_iff)

lemma str_int_10: "str_int 10 = ''10''"
  by code_simp

lemma str_int_55: "str_int 55 = ''55''"
  by code_simp

section \<open>The claims\<close>

text \<open>
  C1. For every non-negative integer \<open>n\<close>, \<open>calculate_fibonacci(n)\<close> is the
  mathematical Fibonacci number \<open>F(n)\<close>, with \<open>F(0) = 0\<close>, \<open>F(1) = 1\<close> and
  \<open>F(n) = F(n-1) + F(n-2)\<close> for \<open>n \<ge> 2\<close>.
\<close>

theorem C1_fibonacci_correct: "0 \<le> n \<Longrightarrow> calculate_fibonacci n = F (nat n)"
  by (rule cf_nonneg_eq_F)

theorem C1_fibonacci_correct_witness:
  "(0::int) \<le> 7 \<and> calculate_fibonacci 7 = F (nat 7) \<and> F (nat 7) = 13"
proof -
  have "calculate_fibonacci 7 = F (nat 7)"
    using C1_fibonacci_correct [of 7] by simp
  moreover have "F (nat 7) = 13"
    by code_simp
  ultimately show ?thesis by simp
qed

text \<open>
  C2. Running \<open>main\<close> writes exactly two lines to standard output, in this order:
  \<open>Starting application...\<close> and \<open>The 10th Fibonacci number is: 55\<close>; in particular
  \<open>calculate_fibonacci(10) = 55\<close>. Whatever was written before is kept, the two lines
  follow it, each ended by a newline, and a run from an empty output holds two newlines.
\<close>

theorem C2_main_output:
  "main out0 =
     out0 @ ''Starting application...'' @ [newline]
          @ ''The 10th Fibonacci number is: 55'' @ [newline]
   \<and> length (filter (\<lambda>c. c = newline) (main [])) = 2
   \<and> calculate_fibonacci 10 = 55"
proof -
  have "main out0 =
     out0 @ ''Starting application...'' @ [newline]
          @ ''The 10th Fibonacci number is: 55'' @ [newline]"
    by (simp add: main_def cf_io_pure cf_10 str_int_10 str_int_55 print_def)
  moreover have "length (filter (\<lambda>c. c = newline) (main [])) = 2"
    by code_simp
  ultimately show ?thesis
    by (simp add: cf_10)
qed

text \<open>
  C3. For every integer \<open>n\<close>, \<open>calculate_fibonacci(n)\<close> returns \<open>n\<close> itself when
  \<open>n \<le> 1\<close>, so that \<open>calculate_fibonacci(0) = 0\<close> and \<open>calculate_fibonacci(1) = 1\<close>,
  and returns \<open>calculate_fibonacci(n-1) + calculate_fibonacci(n-2)\<close> otherwise.
\<close>

theorem C3_contract:
  "(n \<le> 1 \<longrightarrow> calculate_fibonacci n = n)
   \<and> (\<not> n \<le> 1 \<longrightarrow>
        calculate_fibonacci n = calculate_fibonacci (n - 1) + calculate_fibonacci (n - 2))
   \<and> calculate_fibonacci 0 = 0
   \<and> calculate_fibonacci 1 = 1"
  by (simp add: cf_base cf_step)

theorem C3_contract_witness:
  "calculate_fibonacci 1 = 1
   \<and> calculate_fibonacci 2 = calculate_fibonacci 1 + calculate_fibonacci 0
   \<and> calculate_fibonacci 2 = 1"
  using C3_contract [of 1] C3_contract [of 2] by simp

text \<open>
  C4. For every negative integer \<open>n\<close>, \<open>calculate_fibonacci(n)\<close> returns \<open>n\<close>
  unchanged, for example \<open>-1\<close> at \<open>-1\<close> and \<open>-5\<close> at \<open>-5\<close>; the call returns a
  value and raises no validation error.
\<close>

theorem C4_negative_passthrough:
  "n < 0 \<Longrightarrow> calculate_fibonacci n = n \<and> calculate_fibonacci_opt n = Some n"
  by (simp add: cf_opt_total cf_base)

theorem C4_negative_passthrough_witness:
  "calculate_fibonacci (- 1) = - 1
   \<and> calculate_fibonacci (- 5) = - 5
   \<and> calculate_fibonacci_opt (- 5) = Some (- 5)"
  using C4_negative_passthrough [of "- 1"] C4_negative_passthrough [of "- 5"] by simp

text \<open>
  C5. For every integer \<open>n\<close> with \<open>2 \<le> n \<le> 20\<close>,
  \<open>calculate_fibonacci(n) = calculate_fibonacci(n-1) + calculate_fibonacci(n-2)\<close>, and
  the values at \<open>n = 2, ..., 20\<close> are those of the reference table
  1, 2, 3, 5, 8, 13, 21, 34, 55, 89, 144, 233, 377, 610, 987, 1597, 2584, 4181, 6765.
\<close>

theorem C5_recurrence_table:
  "(\<forall>n \<in> {2 .. 20}.
      calculate_fibonacci n = calculate_fibonacci (n - 1) + calculate_fibonacci (n - 2))
   \<and> map calculate_fibonacci [2 .. 20] =
       [1, 2, 3, 5, 8, 13, 21, 34, 55, 89, 144, 233, 377, 610, 987, 1597, 2584, 4181, 6765]"
proof
  show "\<forall>n \<in> {2 .. 20}.
      calculate_fibonacci n = calculate_fibonacci (n - 1) + calculate_fibonacci (n - 2)"
  proof
    fix n :: int
    assume "n \<in> {2 .. 20}"
    then have "1 < n" by simp
    then show "calculate_fibonacci n = calculate_fibonacci (n - 1) + calculate_fibonacci (n - 2)"
      by (rule cf_step)
  qed
next
  show "map calculate_fibonacci [2 .. 20] =
       [1, 2, 3, 5, 8, 13, 21, 34, 55, 89, 144, 233, 377, 610, 987, 1597, 2584, 4181, 6765]"
    by code_simp
qed

theorem C5_recurrence_table_witness:
  "(20::int) \<in> {2 .. 20}
   \<and> calculate_fibonacci 20 = calculate_fibonacci (20 - 1) + calculate_fibonacci (20 - 2)
   \<and> map calculate_fibonacci [2 .. 20] ! 18 = 6765"
proof -
  have m: "(20::int) \<in> {2 .. 20}" by simp
  have "calculate_fibonacci 20 = calculate_fibonacci (20 - 1) + calculate_fibonacci (20 - 2)"
    using C5_recurrence_table m by blast
  moreover have "map calculate_fibonacci [2 .. 20] ! 18 = 6765"
    using C5_recurrence_table by simp
  ultimately show ?thesis
    using m by blast
qed

text \<open>
  C6. Monotonicity: for every integer \<open>n \<ge> 0\<close>,
  \<open>calculate_fibonacci(n+1) \<ge> calculate_fibonacci(n)\<close>.
\<close>

theorem C6_monotone: "0 \<le> n \<Longrightarrow> calculate_fibonacci (n + 1) \<ge> calculate_fibonacci n"
  by (rule cf_mono_succ)

theorem C6_monotone_witness:
  "(0::int) \<le> 1 \<and> calculate_fibonacci (1 + 1) \<ge> calculate_fibonacci 1
   \<and> calculate_fibonacci 1 = 1"
  using C6_monotone [of 1] by (simp add: cf_base)

text \<open>
  C7. Determinism and purity: two calls of \<open>calculate_fibonacci\<close> with the same \<open>n\<close>,
  one after the other, give the same result, the result does not depend on the state the
  call starts in, and each call leaves the program's state as it found it.
\<close>

theorem C7_pure:
  "(let (r1, out1) = calculate_fibonacci_io n out;
        (r2, out2) = calculate_fibonacci_io n out1
    in r1 = r2 \<and> out1 = out \<and> out2 = out)
   \<and> fst (calculate_fibonacci_io n out) = fst (calculate_fibonacci_io n out')
   \<and> calculate_fibonacci_io n out = (calculate_fibonacci n, out)"
  by (simp add: cf_io_pure)

text \<open>
  C8. Termination: \<open>calculate_fibonacci\<close> returns on every integer input. Each
  recursive call has a strictly smaller argument, there is no infinite chain of calls,
  a chain of calls stops exactly at an argument \<open>n \<le> 1\<close>, and a negative input
  returns at once, without a recursive call.
\<close>

theorem C8_termination:
  "(\<exists>y. calculate_fibonacci_opt n = Some y)
   \<and> (\<forall>m. calls n m \<longrightarrow> m < n)
   \<and> wfp (\<lambda>m k. calls k m)
   \<and> ((\<forall>m. \<not> calls n m) \<longleftrightarrow> n \<le> 1)
   \<and> (n < 0 \<longrightarrow> calculate_fibonacci_opt n = Some n \<and> (\<forall>m. \<not> calls n m))"
proof -
  have "\<exists>y. calculate_fibonacci_opt n = Some y"
    by (simp add: cf_opt_total)
  moreover have "\<forall>m. calls n m \<longrightarrow> m < n"
    by (auto simp: calls_iff)
  moreover have "(\<forall>m. \<not> calls n m) \<longleftrightarrow> n \<le> 1"
    by (auto simp: calls_iff)
  moreover have "n < 0 \<longrightarrow> calculate_fibonacci_opt n = Some n \<and> (\<forall>m. \<not> calls n m)"
    by (simp add: cf_opt_total cf_base calls_iff)
  ultimately show ?thesis
    using calls_wfp by blast
qed

theorem C8_termination_witness:
  "calculate_fibonacci_opt 3 = Some 2
   \<and> calls 3 2 \<and> (2::int) < 3
   \<and> calculate_fibonacci_opt (- 4) = Some (- 4)
   \<and> (\<forall>m. \<not> calls (- 4) m)"
proof -
  have "calculate_fibonacci_opt 3 = Some 2"
    by code_simp
  moreover have "calls 3 2"
    using call_left [of 3] by simp
  moreover have "calculate_fibonacci_opt (- 4) = Some (- 4) \<and> (\<forall>m. \<not> calls (- 4) m)"
    using C8_termination [of "- 4"] by simp
  ultimately show ?thesis by simp
qed

text \<open>
  C9. Strict monotonicity above the repeated base values: for every integer
  \<open>n \<ge> 2\<close>, \<open>calculate_fibonacci(n+1) > calculate_fibonacci(n)\<close>.
\<close>

theorem C9_strictly_increasing: "2 \<le> n \<Longrightarrow> calculate_fibonacci (n + 1) > calculate_fibonacci n"
  by (rule cf_strict_succ)

theorem C9_strictly_increasing_witness:
  "(2::int) \<le> 2 \<and> calculate_fibonacci (2 + 1) > calculate_fibonacci 2
   \<and> calculate_fibonacci 2 = 1"
  using C9_strictly_increasing [of 2] by (simp add: cf_small)

text \<open>
  C10. Fixed points: for every integer \<open>n\<close>, \<open>calculate_fibonacci(n) = n\<close> if and
  only if \<open>n \<le> 1\<close> or \<open>n = 5\<close>.
\<close>

theorem C10_fixed_points: "calculate_fibonacci n = n \<longleftrightarrow> n \<le> 1 \<or> n = 5"
proof -
  consider "n \<le> 1" | "n = 2" | "n = 3" | "n = 4" | "n = 5" | "6 \<le> n"
    by linarith
  then show ?thesis
  proof cases
    case 1
    then show ?thesis by (simp add: cf_base)
  next
    case 6
    then have "n < calculate_fibonacci n" by (rule cf_above)
    with 6 show ?thesis by simp
  qed (simp_all add: cf_small)
qed

theorem C10_fixed_points_witness:
  "calculate_fibonacci 5 = 5 \<and> calculate_fibonacci 4 \<noteq> 4 \<and> calculate_fibonacci (- 3) = - 3"
  using C10_fixed_points [of 5] C10_fixed_points [of 4] C10_fixed_points [of "- 3"] by simp

end
